theory Spec2Isabelle
  imports Complex_Main
begin

section \<open>JavaScript values\<close>

text \<open>
  The values that travel through the configuration objects, the request envelope and the
  tool arguments: the JSON values, plus \<open>undefined\<close>. A number is an integer here (the
  numbers found in these objects are ports, counts and timestamps, all far below \<open>2^53\<close>,
  where the arithmetic of doubles is exact; the audio settings of a music request, which
  the code subtracts and compares, have a type of their own below); arrays are left out. An object is the map from its own property names to their values: a
  property that is present with the value \<open>undefined\<close> is \<open>Some JUndefined\<close>, a property
  that is absent is \<open>None\<close>.
\<close>

datatype jsval =
    JUndefined
  | JNull
  | JBool bool
  | JNum int
  | JStr string
  | JObj "string \<Rightarrow> jsval option"

type_synonym obj = "string \<Rightarrow> jsval option"

text \<open>\<open>!!v\<close>: the falsy values are \<open>undefined\<close>, \<open>null\<close>, \<open>false\<close>, \<open>0\<close> and \<open>''\<close>.\<close>

fun truthy :: "jsval \<Rightarrow> bool" where
  "truthy JUndefined = False"
| "truthy JNull = False"
| "truthy (JBool b) = b"
| "truthy (JNum n) = (n \<noteq> 0)"
| "truthy (JStr s) = (s \<noteq> [])"
| "truthy (JObj kv) = True"

text \<open>\<open>o.k\<close> on an object: the value of the own property, \<open>undefined\<close> when there is none.\<close>

definition getp :: "obj \<Rightarrow> string \<Rightarrow> jsval" where
  "getp kv k = (case kv k of None \<Rightarrow> JUndefined | Some v \<Rightarrow> v)"

text \<open>Decimal digits of a natural number, as \<open>String(n)\<close> prints them.\<close>

fun show_nat :: "nat \<Rightarrow> string" where
  "show_nat n =
     (if n < 10 then [''0123456789'' ! n]
      else show_nat (n div 10) @ [''0123456789'' ! (n mod 10)])"

declare show_nat.simps [simp del]

definition show_int :: "int \<Rightarrow> string" where
  "show_int i = (if i < 0 then CHR ''-'' # show_nat (nat (- i)) else show_nat (nat i))"

text \<open>
  The own enumerable properties that a spread \<open>{...v}\<close> or \<open>Object.assign\<close> copies out
  of a value: those of an object, the indexed characters of a string, nothing for the
  other primitives. The spread \<open>{...a, ...b}\<close> of two such property maps is \<open>a ++ b\<close>.
\<close>

fun ownProps :: "jsval \<Rightarrow> obj" where
  "ownProps (JObj kv) = kv"
| "ownProps (JStr s) = map_of (zip (map show_nat [0..<length s]) (map (\<lambda>c. JStr [c]) s))"
| "ownProps v = Map.empty"

section \<open>MCPServer.updateConfig\<close>

text \<open>
  The method works on two objects: \<open>this.config\<close> and the caller's \<open>newConfig\<close>, which it
  changes with \<open>delete\<close>. The model returns both: the new \<open>this.config\<close> first, the
  caller's object as the method leaves it second. The API instances rebuilt at the end
  of the method are outside the model.
\<close>

definition updateConfig :: "obj \<Rightarrow> obj \<Rightarrow> obj \<times> obj" where
  "updateConfig config newConfig =
     (let (config1, newConfig1) =
        (if truthy (getp newConfig ''server'') \<and> truthy (getp config ''server'') then
           (config(''server'' \<mapsto>
              JObj (ownProps (getp config ''server'') ++ ownProps (getp newConfig ''server''))),
            newConfig(''server'' := None))
         else if truthy (getp newConfig ''server'') then
           (config(''server'' \<mapsto> getp newConfig ''server''),
            newConfig(''server'' := None))
         else (config, newConfig))
      in (config1 ++ newConfig1, newConfig1))"

section \<open>Thrown values\<close>

text \<open>
  What a \<open>throw\<close> carries: an \<open>Error\<close> instance (or an instance of a subclass, such as
  \<open>TypeError\<close> or the repository's \<open>MinimaxRequestError\<close>) with its message, or any other
  value, kept as the string that \<open>String(value)\<close> gives. A function that can throw returns
  \<open>thrown + 'a\<close>, with \<open>Inl\<close> the exception.
\<close>

datatype thrown = JsError string | NonError string

text \<open>\<open>error instanceof Error ? error.message : String(error)\<close>\<close>

fun errorMessage :: "thrown \<Rightarrow> string" where
  "errorMessage (JsError m) = m"
| "errorMessage (NonError s) = s"

section \<open>Numbers: the doubles of the audio settings\<close>

text \<open>
  The audio settings of a music request are JavaScript numbers, and the code subtracts
  and compares them, so they are modelled as doubles (IEEE 754 binary64): not a number,
  the two infinities, or the rational number that a finite double denotes. The two
  zeros are one value here; none of the operations below tells them apart.
\<close>

datatype number = Finite rat | PosInf | NegInf | NaN

text \<open>The number of binary digits of a natural number.\<close>

fun bitlen :: "nat \<Rightarrow> nat" where
  "bitlen n = (if n = 0 then 0 else Suc (bitlen (n div 2)))"

declare bitlen.simps [simp del]

definition pow2 :: "int \<Rightarrow> rat" where
  "pow2 e = (if 0 \<le> e then 2 ^ nat e else 1 / 2 ^ nat (- e))"

text \<open>The exponent \<open>e\<close> with \<open>2^e \<le> q < 2^(e+1)\<close>, for a positive rational \<open>q\<close>.\<close>

definition binade :: "rat \<Rightarrow> int" where
  "binade q =
     (if 1 \<le> q then int (bitlen (nat \<lfloor>q\<rfloor>)) - 1
      else (let k = int (bitlen (nat \<lfloor>1 / q\<rfloor>)) - 1
            in if q = pow2 (- k) then - k else - k - 1))"

text \<open>The nearest integer, the even one of the two when \<open>r\<close> lies half way.\<close>

definition roundHalfEven :: "rat \<Rightarrow> int" where
  "roundHalfEven r =
     (let f = \<lfloor>r\<rfloor>
      in if r - of_int f < 1 / 2 then f
         else if 1 / 2 < r - of_int f then f + 1
         else if even f then f else f + 1)"

text \<open>
  The double that an arithmetic operation returns for the exact result \<open>q\<close>: the nearest
  multiple of the unit in the last place (53 significant bits, the least exponent
  \<open>-1022\<close>, below which the spacing stays that of the subnormal numbers), ties to even,
  and an infinity once the rounded magnitude reaches \<open>2^1024\<close>.
\<close>

definition roundDouble :: "rat \<Rightarrow> number" where
  "roundDouble q =
     (if q = 0 then Finite 0
      else (let p = max (binade \<bar>q\<bar>) (- 1022) - 52;
                v = of_int (roundHalfEven (\<bar>q\<bar> / pow2 p)) * pow2 p
            in if pow2 1024 \<le> v then (if 0 < q then PosInf else NegInf)
               else Finite (if 0 < q then v else - v)))"

text \<open>\<open>a - b\<close>, \<open>Math.abs(a)\<close> and \<open>a < b\<close> on numbers.\<close>

fun js_sub :: "number \<Rightarrow> number \<Rightarrow> number" where
  "js_sub (Finite a) (Finite b) = roundDouble (a - b)"
| "js_sub NaN y = NaN"
| "js_sub x NaN = NaN"
| "js_sub PosInf PosInf = NaN"
| "js_sub NegInf NegInf = NaN"
| "js_sub PosInf y = PosInf"
| "js_sub NegInf y = NegInf"
| "js_sub (Finite a) PosInf = NegInf"
| "js_sub (Finite a) NegInf = PosInf"

fun js_abs :: "number \<Rightarrow> number" where
  "js_abs (Finite a) = Finite \<bar>a\<bar>"
| "js_abs PosInf = PosInf"
| "js_abs NegInf = PosInf"
| "js_abs NaN = NaN"

fun js_less :: "number \<Rightarrow> number \<Rightarrow> bool" where
  "js_less (Finite a) (Finite b) = (a < b)"
| "js_less NaN y = False"
| "js_less x NaN = False"
| "js_less NegInf NegInf = False"
| "js_less NegInf y = True"
| "js_less PosInf y = False"
| "js_less (Finite a) PosInf = True"
| "js_less (Finite a) NegInf = False"

section \<open>MusicAPI: the audio settings of a music request\<close>

text \<open>
  \<open>Array.prototype.reduce\<close> without an initial value: the first element starts the
  accumulator, and the empty array is a \<open>TypeError\<close>.
\<close>

fun reduce :: "('a \<Rightarrow> 'a \<Rightarrow> 'a) \<Rightarrow> 'a list \<Rightarrow> thrown + 'a" where
  "reduce f [] = Inl (JsError ''Reduce of empty array with no initial value'')"
| "reduce f (x # xs) = Inr (foldl f x xs)"

definition validSampleRates :: "number list" where
  "validSampleRates = [Finite 16000, Finite 24000, Finite 32000, Finite 44100]"

definition validBitrates :: "number list" where
  "validBitrates = [Finite 32000, Finite 64000, Finite 128000, Finite 256000]"

definition validChannels :: "number list" where
  "validChannels = [Finite 1, Finite 2]"


text \<open>
  The optional number of the request is \<open>None\<close> when \<open>undefined\<close>. \<open>includes\<close> finds a
  number that equals an element of the array; no array here holds \<open>NaN\<close>. The callback of
  \<open>reduce\<close> computes both distances in doubles. The warning written to the console when
  a value is replaced is not modelled.
\<close>

definition ensureValidSampleRate :: "number option \<Rightarrow> thrown + number" where
  "ensureValidSampleRate sampleRate =
     (case sampleRate of
        None \<Rightarrow> Inr (Finite 32000)
      | Some r \<Rightarrow>
          if r \<notin> set validSampleRates then
            reduce (\<lambda>prev curr.
                      if js_less (js_abs (js_sub curr r)) (js_abs (js_sub prev r))
                      then curr else prev)
              validSampleRates
          else Inr r)"

definition ensureValidBitrate :: "number option \<Rightarrow> thrown + number" where
  "ensureValidBitrate bitrate =
     (case bitrate of
        None \<Rightarrow> Inr (Finite 128000)
      | Some b \<Rightarrow>
          if b \<notin> set validBitrates then
            reduce (\<lambda>prev curr.
                      if js_less (js_abs (js_sub curr b)) (js_abs (js_sub prev b))
                      then curr else prev)
              validBitrates
          else Inr b)"

definition ensureValidChannel :: "number option \<Rightarrow> thrown + number" where
  "ensureValidChannel channel =
     (case channel of
        None \<Rightarrow> Inr (Finite 1)
      | Some c \<Rightarrow>
          if c \<notin> set validChannels then
            reduce (\<lambda>prev curr.
                      if js_less (js_abs (js_sub curr c)) (js_abs (js_sub prev c))
                      then curr else prev)
              validChannels
          else Inr c)"




text \<open>
  What "the closest valid value, the earlier one on a tie" means for a list of valid
  values \<open>vs\<close>, a requested value \<open>x\<close> and a result \<open>r\<close>, all of them finite: \<open>r\<close> stands in
  the list, every value before it is strictly farther from \<open>x\<close>, and no value after it
  is nearer. The distances are the exact ones, of the rationals.
\<close>

definition first_closest :: "rat list \<Rightarrow> rat \<Rightarrow> rat \<Rightarrow> bool" where
  "first_closest vs x r \<longleftrightarrow>
     (\<exists>pre post. vs = pre @ r # post \<and>
        (\<forall>v \<in> set pre. \<bar>r - x\<bar> < \<bar>v - x\<bar>) \<and>
        (\<forall>v \<in> set post. \<bar>r - x\<bar> \<le> \<bar>v - x\<bar>))"


text \<open>
  The differences between the valid values and the requested value are exact: the
  subtraction of doubles returns each of them unrounded.
\<close>

definition exactDifferences :: "rat list \<Rightarrow> rat \<Rightarrow> bool" where
  "exactDifferences vs x \<longleftrightarrow> (\<forall>v \<in> set vs. roundDouble (v - x) = Finite (v - x))"

section \<open>Reading and writing properties, strings\<close>

text \<open>
  \<open>v.k\<close> for the property names the modelled code reads (none of them is a property of
  a string, number or boolean wrapper): a \<open>TypeError\<close> on \<open>undefined\<close> and \<open>null\<close>, the own
  property of an object, \<open>undefined\<close> on the other primitives.
\<close>

fun readp :: "jsval \<Rightarrow> string \<Rightarrow> thrown + jsval" where
  "readp JUndefined k = Inl (JsError (''Cannot read properties of undefined (reading '' @ k @ '')''))"
| "readp JNull k = Inl (JsError (''Cannot read properties of null (reading '' @ k @ '')''))"
| "readp (JObj kv) k = Inr (getp kv k)"
| "readp v k = Inr JUndefined"

text \<open>\<open>v?.k\<close>: \<open>undefined\<close> where \<open>v.k\<close> would throw.\<close>

fun optp :: "jsval \<Rightarrow> string \<Rightarrow> jsval" where
  "optp (JObj kv) k = getp kv k"
| "optp v k = JUndefined"

text \<open>
  \<open>v.k = x\<close> in strict mode (the code is an ES module): the object with the property
  written, a \<open>TypeError\<close> on every primitive.
\<close>

fun writep :: "jsval \<Rightarrow> string \<Rightarrow> jsval \<Rightarrow> thrown + jsval" where
  "writep (JObj kv) k x = Inr (JObj (kv(k \<mapsto> x)))"
| "writep JUndefined k x = Inl (JsError (''Cannot set properties of undefined (setting '' @ k @ '')''))"
| "writep JNull k x = Inl (JsError (''Cannot set properties of null (setting '' @ k @ '')''))"
| "writep v k x = Inl (JsError (''Cannot create property '' @ k))"

text \<open>\<open>a || b\<close>\<close>

definition or_js :: "jsval \<Rightarrow> jsval \<Rightarrow> jsval" where
  "or_js a b = (if truthy a then a else b)"

fun typeof :: "jsval \<Rightarrow> string" where
  "typeof JUndefined = ''undefined''"
| "typeof JNull = ''object''"
| "typeof (JBool b) = ''boolean''"
| "typeof (JNum n) = ''number''"
| "typeof (JStr s) = ''string''"
| "typeof (JObj kv) = ''object''"

text \<open>The string a template literal \<open>`${v}`\<close> puts in for a value.\<close>

fun String_js :: "jsval \<Rightarrow> string" where
  "String_js JUndefined = ''undefined''"
| "String_js JNull = ''null''"
| "String_js (JBool b) = (if b then ''true'' else ''false'')"
| "String_js (JNum n) = show_int n"
| "String_js (JStr s) = s"
| "String_js (JObj kv) = ''[object Object]''"

text \<open>\<open>s.startsWith(pat)\<close> and \<open>s.includes(pat)\<close> on strings.\<close>

fun startsWith :: "string \<Rightarrow> string \<Rightarrow> bool" where
  "startsWith s [] = True"
| "startsWith [] (p # ps) = False"
| "startsWith (c # s) (p # ps) = (c = p \<and> startsWith s ps)"

fun includes_js :: "string \<Rightarrow> string \<Rightarrow> bool" where
  "includes_js [] pat = (pat = [])"
| "includes_js (c # s) pat = (startsWith (c # s) pat \<or> includes_js s pat)"

text \<open>
  \<open>v.substring(0, n)\<close>: the first \<open>n\<close> characters of a string; on any other value the
  call is a \<open>TypeError\<close> (\<open>undefined\<close> has no properties, the others no such method).
\<close>

fun substring0 :: "jsval \<Rightarrow> nat \<Rightarrow> thrown + string" where
  "substring0 (JStr s) n = Inr (take n s)"
| "substring0 JUndefined n = Inl (JsError ''Cannot read properties of undefined (reading substring)'')"
| "substring0 JNull n = Inl (JsError ''Cannot read properties of null (reading substring)'')"
| "substring0 v n = Inl (JsError ''substring is not a function'')"

text \<open>\<open>s.replace(/[^\w]/g, '_')\<close>\<close>

definition isWordChar :: "char \<Rightarrow> bool" where
  "isWordChar c =
     (c \<in> set ''abcdefghijklmnopqrstuvwxyzABCDEFGHIJKLMNOPQRSTUVWXYZ0123456789_'')"

definition replaceNonWord :: "string \<Rightarrow> string" where
  "replaceNonWord s = map (\<lambda>c. if isWordChar c then c else CHR ''_'') s"

section \<open>The media service and the trace of a call\<close>

text \<open>
  The media service is outside the repository's decision logic: it is a parameter. Its
  answer to a call may change from one call to the next, so it is a function of the
  method called, the argument, and the number of calls made before this one during the
  request; it answers with a result (\<open>Inr\<close>) or throws (\<open>Inl\<close>).

  What a handler does besides returning is recorded in a trace, in order: each call of
  the service, and each delay awaited, in milliseconds.
\<close>

type_synonym service = "string \<Rightarrow> jsval \<Rightarrow> nat \<Rightarrow> thrown + jsval"

datatype event = Invoke string jsval | Sleep nat

fun invocations :: "event list \<Rightarrow> nat" where
  "invocations [] = 0"
| "invocations (Invoke m a # tr) = Suc (invocations tr)"
| "invocations (Sleep d # tr) = invocations tr"

fun delays :: "event list \<Rightarrow> nat list" where
  "delays [] = []"
| "delays (Invoke m a # tr) = delays tr"
| "delays (Sleep d # tr) = d # delays tr"

text \<open>
  What a handler returns: the value the service gave, or a tool result
  \<open>{content: [{type: 'text', text: t}]}\<close> built by the handler itself.
\<close>

datatype retval = Result jsval | TextContent string

section \<open>MCPRestServer: retry constants and handlers\<close>

definition MAX_RETRY_ATTEMPTS :: nat where
  "MAX_RETRY_ATTEMPTS = 3"

definition RETRY_DELAY :: nat where
  "RETRY_DELAY = 1000"

definition wrapError :: "string \<Rightarrow> thrown \<Rightarrow> thrown" where
  "wrapError message error =
     (case error of
        JsError m \<Rightarrow> JsError (message @ '': '' @ m)
      | NonError s \<Rightarrow> JsError (message @ '': '' @ s))"

text \<open>
  Each handler takes the service, the tool arguments, the attempt number (1 at the first
  call, as the default parameter value says) and the trace so far, and gives back what
  it returns or throws together with the extended trace. The delay before the next
  attempt is \<open>RETRY_DELAY * Math.pow(2, attempt - 1)\<close>.
\<close>

function handleTextToAudio ::
  "service \<Rightarrow> jsval \<Rightarrow> nat \<Rightarrow> event list \<Rightarrow> (thrown + retval) \<times> event list" where
  "handleTextToAudio svc args attempt tr =
     (case svc ''generateSpeech'' args (invocations tr) of
        Inr result \<Rightarrow> (Inr (Result result), tr @ [Invoke ''generateSpeech'' args])
      | Inl error \<Rightarrow>
          if attempt < MAX_RETRY_ATTEMPTS then
            handleTextToAudio svc args (attempt + 1)
              (tr @ [Invoke ''generateSpeech'' args, Sleep (RETRY_DELAY * 2 ^ (attempt - 1))])
          else (Inl (wrapError ''Failed to generate speech'' error),
                tr @ [Invoke ''generateSpeech'' args]))"
  by pat_completeness auto
termination
  by (relation "measure (\<lambda>(svc, args, attempt, tr). MAX_RETRY_ATTEMPTS - attempt)") auto

declare handleTextToAudio.simps [simp del]

function handleListVoices ::
  "service \<Rightarrow> jsval \<Rightarrow> nat \<Rightarrow> event list \<Rightarrow> (thrown + retval) \<times> event list" where
  "handleListVoices svc args attempt tr =
     (case svc ''listVoices'' args (invocations tr) of
        Inr result \<Rightarrow> (Inr (Result result), tr @ [Invoke ''listVoices'' args])
      | Inl error \<Rightarrow>
          if attempt < MAX_RETRY_ATTEMPTS then
            handleListVoices svc args (attempt + 1)
              (tr @ [Invoke ''listVoices'' args, Sleep (RETRY_DELAY * 2 ^ (attempt - 1))])
          else (Inl (wrapError ''Failed to list voices'' error),
                tr @ [Invoke ''listVoices'' args]))"
  by pat_completeness auto
termination
  by (relation "measure (\<lambda>(svc, args, attempt, tr). MAX_RETRY_ATTEMPTS - attempt)") auto

declare handleListVoices.simps [simp del]

text \<open>The handler never uses the service: it answers with a text.\<close>

definition handlePlayAudio :: "jsval \<Rightarrow> event list \<Rightarrow> (thrown + retval) \<times> event list" where
  "handlePlayAudio args tr =
     (case readp args ''inputFilePath'' of
        Inr inputFilePath \<Rightarrow> (Inr (TextContent (''Playing audio: '' @ String_js inputFilePath)), tr)
      | Inl error \<Rightarrow> (Inl (wrapError ''Failed to play audio'' error), tr))"

function handleTextToImage ::
  "service \<Rightarrow> jsval \<Rightarrow> nat \<Rightarrow> event list \<Rightarrow> (thrown + retval) \<times> event list" where
  "handleTextToImage svc args attempt tr =
     (case svc ''generateImage'' args (invocations tr) of
        Inr result \<Rightarrow> (Inr (Result result), tr @ [Invoke ''generateImage'' args])
      | Inl error \<Rightarrow>
          if attempt < MAX_RETRY_ATTEMPTS then
            handleTextToImage svc args (attempt + 1)
              (tr @ [Invoke ''generateImage'' args, Sleep (RETRY_DELAY * 2 ^ (attempt - 1))])
          else (Inl (wrapError ''Failed to generate image'' error),
                tr @ [Invoke ''generateImage'' args]))"
  by pat_completeness auto
termination
  by (relation "measure (\<lambda>(svc, args, attempt, tr). MAX_RETRY_ATTEMPTS - attempt)") auto

declare handleTextToImage.simps [simp del]

function handleGenerateVideo ::
  "service \<Rightarrow> jsval \<Rightarrow> nat \<Rightarrow> event list \<Rightarrow> (thrown + retval) \<times> event list" where
  "handleGenerateVideo svc args attempt tr =
     (case svc ''generateVideo'' args (invocations tr) of
        Inr result \<Rightarrow> (Inr (Result result), tr @ [Invoke ''generateVideo'' args])
      | Inl error \<Rightarrow>
          if attempt < MAX_RETRY_ATTEMPTS then
            handleGenerateVideo svc args (attempt + 1)
              (tr @ [Invoke ''generateVideo'' args, Sleep (RETRY_DELAY * 2 ^ (attempt - 1))])
          else (Inl (wrapError ''Failed to generate video'' error),
                tr @ [Invoke ''generateVideo'' args]))"
  by pat_completeness auto
termination
  by (relation "measure (\<lambda>(svc, args, attempt, tr). MAX_RETRY_ATTEMPTS - attempt)") auto

declare handleGenerateVideo.simps [simp del]

definition verificationUrl :: string where
  "verificationUrl = ''https://platform.minimaxi.com/user-center/basic-information''"

text \<open>The text of the tool result that both servers return on a real-name verification error.\<close>

definition verificationText :: string where
  "verificationText =
     (''Voice cloning failed: Real-name verification required. To use voice cloning feature, please:''
      @ [CHR 0x0A, CHR 0x0A] @ ''1. Visit MiniMax platform ('')
     @ verificationUrl @
     ('')'' @ [CHR 0x0A] @ ''2. Complete the real-name verification process''
      @ [CHR 0x0A] @ ''3. Try again after verification is complete''
      @ [CHR 0x0A, CHR 0x0A] @ ''This requirement is for security and compliance purposes.'')"

function handleVoiceClone ::
  "service \<Rightarrow> jsval \<Rightarrow> nat \<Rightarrow> event list \<Rightarrow> (thrown + retval) \<times> event list" where
  "handleVoiceClone svc args attempt tr =
     (case svc ''cloneVoice'' args (invocations tr) of
        Inr result \<Rightarrow> (Inr (Result result), tr @ [Invoke ''cloneVoice'' args])
      | Inl error \<Rightarrow>
          if includes_js (errorMessage error) ''voice clone user forbidden'' \<or>
             includes_js (errorMessage error) ''should complete real-name verification''
          then (Inr (TextContent verificationText), tr @ [Invoke ''cloneVoice'' args])
          else if attempt < MAX_RETRY_ATTEMPTS then
            handleVoiceClone svc args (attempt + 1)
              (tr @ [Invoke ''cloneVoice'' args, Sleep (RETRY_DELAY * 2 ^ (attempt - 1))])
          else (Inl (wrapError ''Failed to clone voice'' error),
                tr @ [Invoke ''cloneVoice'' args]))"
  by pat_completeness auto
termination
  by (relation "measure (\<lambda>(svc, args, attempt, tr). MAX_RETRY_ATTEMPTS - attempt)") auto

declare handleVoiceClone.simps [simp del]

text \<open>
  The statements of \<open>handleImageToVideo\<close> before the service call. They change the
  argument object in place, so the object is returned as they leave it, together with
  the exception if one of them throws. \<open>now\<close> is the value of \<open>Date.now()\<close>.
\<close>

definition prepareImageToVideo :: "int \<Rightarrow> jsval \<Rightarrow> thrown option \<times> jsval" where
  "prepareImageToVideo now args =
     (case readp args ''model'' of
        Inl e \<Rightarrow> (Some e, args)
      | Inr model \<Rightarrow>
          (case (if \<not> truthy model then writep args ''model'' (JStr ''I2V-01'') else Inr args) of
             Inl e \<Rightarrow> (Some e, args)
           | Inr args1 \<Rightarrow>
               if \<not> truthy (optp args1 ''firstFrameImage'') then
                 (Some (JsError ''Missing required parameter: firstFrameImage''), args1)
               else if \<not> truthy (optp args1 ''outputFile'') then
                 (case substring0 (optp args1 ''prompt'') 20 of
                    Inl e \<Rightarrow> (Some e, args1)
                  | Inr prefix \<Rightarrow>
                      (case writep args1 ''outputFile''
                              (JStr (''i2v_'' @ replaceNonWord prefix @ ''_'' @ show_int now)) of
                         Inl e \<Rightarrow> (Some e, args1)
                       | Inr args2 \<Rightarrow> (None, args2)))
               else (None, args1)))"

function handleImageToVideo ::
  "service \<Rightarrow> int \<Rightarrow> jsval \<Rightarrow> nat \<Rightarrow> event list \<Rightarrow> (thrown + retval) \<times> event list" where
  "handleImageToVideo svc now args attempt tr =
     (case prepareImageToVideo now args of
        (None, args1) \<Rightarrow>
          (case svc ''generateVideo'' args1 (invocations tr) of
             Inr result \<Rightarrow> (Inr (Result result), tr @ [Invoke ''generateVideo'' args1])
           | Inl error \<Rightarrow>
               if attempt < MAX_RETRY_ATTEMPTS then
                 handleImageToVideo svc now args1 (attempt + 1)
                   (tr @ [Invoke ''generateVideo'' args1, Sleep (RETRY_DELAY * 2 ^ (attempt - 1))])
               else (Inl (wrapError ''Failed to generate video'' error),
                     tr @ [Invoke ''generateVideo'' args1]))
      | (Some error, args1) \<Rightarrow>
          if attempt < MAX_RETRY_ATTEMPTS then
            handleImageToVideo svc now args1 (attempt + 1)
              (tr @ [Sleep (RETRY_DELAY * 2 ^ (attempt - 1))])
          else (Inl (wrapError ''Failed to generate video'' error), tr))"
  by pat_completeness auto
termination
  by (relation "measure (\<lambda>(svc, now, args, attempt, tr). MAX_RETRY_ATTEMPTS - attempt)") auto

declare handleImageToVideo.simps [simp del]

text \<open>The three handlers below take the attempt number and never read it.\<close>

definition handleVideoGenerationQuery ::
  "service \<Rightarrow> jsval \<Rightarrow> nat \<Rightarrow> event list \<Rightarrow> (thrown + retval) \<times> event list" where
  "handleVideoGenerationQuery svc args attempt tr =
     (case svc ''queryVideoGeneration'' args (invocations tr) of
        Inr result \<Rightarrow> (Inr (Result result), tr @ [Invoke ''queryVideoGeneration'' args])
      | Inl error \<Rightarrow> (Inl (wrapError ''Failed to query video generation'' error),
                      tr @ [Invoke ''queryVideoGeneration'' args]))"

definition handleGenerateMusic ::
  "service \<Rightarrow> jsval \<Rightarrow> nat \<Rightarrow> event list \<Rightarrow> (thrown + retval) \<times> event list" where
  "handleGenerateMusic svc args attempt tr =
     (case svc ''generateMusic'' args (invocations tr) of
        Inr result \<Rightarrow> (Inr (Result result), tr @ [Invoke ''generateMusic'' args])
      | Inl error \<Rightarrow> (Inl (wrapError ''Failed to generate music'' error),
                      tr @ [Invoke ''generateMusic'' args]))"

definition handleVoiceDesign ::
  "service \<Rightarrow> jsval \<Rightarrow> nat \<Rightarrow> event list \<Rightarrow> (thrown + retval) \<times> event list" where
  "handleVoiceDesign svc args attempt tr =
     (case svc ''designVoice'' args (invocations tr) of
        Inr result \<Rightarrow> (Inr (Result result), tr @ [Invoke ''designVoice'' args])
      | Inl error \<Rightarrow> (Inl (wrapError ''Failed to design voice'' error),
                      tr @ [Invoke ''designVoice'' args]))"

section \<open>MCPRestServer: the request configuration and the dispatcher\<close>

text \<open>
  The parts of the repository that the dispatcher calls and that are not among the
  modelled sources are parameters, collected in one record:
  \<^item> \<open>getConfig requestConfig baseConfig\<close> is \<open>ConfigManager.getConfig\<close>;
  \<^item> \<open>extractConfigFromMetaAuth\<close> is \<open>ConfigManager.extractConfigFromMetaAuth\<close>;
  \<^item> \<open>construct config\<close> is the construction of the API objects over a configuration
    (\<open>new MiniMaxAPI(config)\<close> and the service built on it): \<open>None\<close> when the
    constructors return, the exception otherwise;
  \<^item> \<open>adapter config\<close> is the behaviour of the media operations of the objects so built;
  \<^item> \<open>dateNow\<close> is the value of \<open>Date.now()\<close>.
\<close>

record env =
  getConfig :: "obj \<Rightarrow> obj \<Rightarrow> thrown + obj"
  extractConfigFromMetaAuth :: "jsval \<Rightarrow> thrown + jsval"
  construct :: "obj \<Rightarrow> thrown option"
  adapter :: "obj \<Rightarrow> service"
  dateNow :: int

text \<open>
  \<open>extractApiKeyFromRequest\<close> has no \<open>try\<close>: reading \<open>request.params\<close> throws when the
  request itself is \<open>undefined\<close> or \<open>null\<close>. The two plain reads \<open>metaAuth.api_key\<close> and
  \<open>metaAuth.apiKey\<close> are kept as reads that can throw.
\<close>

definition extractApiKeyFromRequest :: "jsval \<Rightarrow> thrown + jsval" where
  "extractApiKeyFromRequest request =
     (case readp request ''params'' of
        Inl e \<Rightarrow> Inl e
      | Inr params \<Rightarrow>
          (let metaAuth = or_js (optp (optp params ''_meta'') ''auth'')
                                (optp (optp params ''meta'') ''auth'')
           in if truthy (optp metaAuth ''api_key'') then readp metaAuth ''api_key''
              else if truthy (optp metaAuth ''apiKey'') then readp metaAuth ''apiKey''
              else Inr JUndefined))"

text \<open>
  The body of the \<open>try\<close> in \<open>extractRequestConfig\<close>, giving the \<open>config\<close> object as the
  body leaves it. The plain read \<open>request.params.meta.auth\<close> runs only after the
  optional read of the same path gave a truthy value.
\<close>

definition extractRequestConfig_try ::
  "(jsval \<Rightarrow> thrown + jsval) \<Rightarrow> jsval \<Rightarrow> thrown + obj" where
  "extractRequestConfig_try extractFromMetaAuth request =
     (case readp request ''params'' of
        Inl e \<Rightarrow> Inl e
      | Inr params \<Rightarrow>
          (let metaAuth0 = optp (optp params ''_meta'') ''auth'';
               metaAuth = (if \<not> truthy metaAuth0 \<and> truthy (optp (optp params ''meta'') ''auth'')
                           then optp (optp params ''meta'') ''auth''
                           else metaAuth0)
           in if truthy metaAuth \<and> typeof metaAuth = ''object'' then
                (case extractFromMetaAuth metaAuth of
                   Inl e \<Rightarrow> Inl e
                 | Inr metaAuthConfig \<Rightarrow>
                     if truthy metaAuthConfig then Inr (Map.empty ++ ownProps metaAuthConfig)
                     else Inr Map.empty)
              else Inr Map.empty))"

text \<open>
  The \<open>catch\<close> swallows whatever the body throws; \<open>config\<close> is still the empty object
  then, since the body writes to it in its last statement only.
\<close>

definition extractRequestConfig :: "(jsval \<Rightarrow> thrown + jsval) \<Rightarrow> jsval \<Rightarrow> obj" where
  "extractRequestConfig extractFromMetaAuth request =
     (case extractRequestConfig_try extractFromMetaAuth request of
        Inl e \<Rightarrow> Map.empty
      | Inr config \<Rightarrow> config)"

definition getRequestConfig :: "env \<Rightarrow> obj \<Rightarrow> jsval \<Rightarrow> thrown + obj" where
  "getRequestConfig env config request =
     getConfig env (extractRequestConfig (extractConfigFromMetaAuth env) request) config"

text \<open>
  The masked key that the handler computes for a log line:
  \<open>apiKey ? `${apiKey.substring(0, 4)}****${apiKey.substring(apiKey.length - 4)}` : 'not provided'\<close>.
  A truthy key that is not a string has no \<open>substring\<close> method.
\<close>

definition maskedKey :: "jsval \<Rightarrow> thrown + string" where
  "maskedKey apiKey =
     (if truthy apiKey then
        (case apiKey of
           JStr s \<Rightarrow> Inr (take 4 s @ ''****'' @ drop (length s - 4) s)
         | _ \<Rightarrow> Inl (JsError ''apiKey.substring is not a function''))
      else Inr ''not provided'')"

text \<open>The names that the \<open>switch\<close> of the dispatcher routes, in the order of its cases.\<close>

definition routedTools :: "string list" where
  "routedTools =
     [''text_to_audio'', ''list_voices'', ''play_audio'', ''text_to_image'', ''generate_video'',
      ''voice_clone'', ''image_to_video'', ''query_video_generation'', ''music_generation'',
      ''voice_design'']"

text \<open>The \<open>switch\<close> on the tool name; every handler starts at attempt 1 with an empty trace.\<close>

definition routeTool ::
  "service \<Rightarrow> int \<Rightarrow> jsval \<Rightarrow> jsval \<Rightarrow> (thrown + retval) \<times> event list" where
  "routeTool svc now toolName toolParams =
     (if toolName = JStr ''text_to_audio'' then handleTextToAudio svc toolParams 1 []
      else if toolName = JStr ''list_voices'' then handleListVoices svc toolParams 1 []
      else if toolName = JStr ''play_audio'' then handlePlayAudio toolParams []
      else if toolName = JStr ''text_to_image'' then handleTextToImage svc toolParams 1 []
      else if toolName = JStr ''generate_video'' then handleGenerateVideo svc toolParams 1 []
      else if toolName = JStr ''voice_clone'' then handleVoiceClone svc toolParams 1 []
      else if toolName = JStr ''image_to_video'' then handleImageToVideo svc now toolParams 1 []
      else if toolName = JStr ''query_video_generation'' then
        handleVideoGenerationQuery svc toolParams 1 []
      else if toolName = JStr ''music_generation'' then handleGenerateMusic svc toolParams 1 []
      else if toolName = JStr ''voice_design'' then handleVoiceDesign svc toolParams 1 []
      else (Inl (JsError (''Unknown tool: '' @ String_js toolName)), []))"

text \<open>
  The handler of a tool call. \<open>request.params.tool\<close> and \<open>request.params.params\<close> are read
  before the \<open>try\<close>; everything thrown inside it is wrapped and thrown again.
\<close>

definition callTool :: "env \<Rightarrow> obj \<Rightarrow> jsval \<Rightarrow> (thrown + retval) \<times> event list" where
  "callTool env config request =
     (case readp request ''params'' of
        Inl e \<Rightarrow> (Inl e, [])
      | Inr params \<Rightarrow>
          (case readp params ''tool'' of
             Inl e \<Rightarrow> (Inl e, [])
           | Inr toolName \<Rightarrow>
               (case readp params ''params'' of
                  Inl e \<Rightarrow> (Inl e, [])
                | Inr p \<Rightarrow>
                    (let toolParams = or_js p (JObj Map.empty);
                         wrap = wrapError (''Failed to call tool '' @ String_js toolName)
                     in case getRequestConfig env config request of
                          Inl e \<Rightarrow> (Inl (wrap e), [])
                        | Inr requestConfig \<Rightarrow>
                            (case construct env requestConfig of
                               Some e \<Rightarrow> (Inl (wrap e), [])
                             | None \<Rightarrow>
                                 (case extractApiKeyFromRequest request of
                                    Inl e \<Rightarrow> (Inl (wrap e), [])
                                  | Inr apiKey \<Rightarrow>
                                      (case maskedKey apiKey of
                                         Inl e \<Rightarrow> (Inl (wrap e), [])
                                       | Inr masked \<Rightarrow>
                                           (case routeTool (adapter env requestConfig) (dateNow env)
                                                   toolName toolParams of
                                              (Inl e, tr) \<Rightarrow> (Inl (wrap e), tr)
                                            | (Inr v, tr) \<Rightarrow> (Inr v, tr)))))))))"

section \<open>MCPServer: two tool handlers of the STDIO server\<close>

text \<open>
  The handler that \<open>registerVoiceCloneTool\<close> registers. It calls the voice clone API once
  and always returns a tool result.
\<close>

definition registerVoiceCloneTool_handler :: "service \<Rightarrow> jsval \<Rightarrow> retval \<times> event list" where
  "registerVoiceCloneTool_handler api params =
     (case api ''cloneVoice'' params 0 of
        Inr result \<Rightarrow>
          (TextContent (''Voice cloning successful: '' @ String_js result),
           [Invoke ''cloneVoice'' params])
      | Inl error \<Rightarrow>
          if includes_js (errorMessage error) ''voice clone user forbidden'' \<or>
             includes_js (errorMessage error) ''should complete real-name verification''
          then (TextContent verificationText, [Invoke ''cloneVoice'' params])
          else (TextContent (''Voice cloning failed: '' @ errorMessage error),
                [Invoke ''cloneVoice'' params]))"

text \<open>
  The constants of \<open>const/index.js\<close> that the text-to-audio handler uses; their values are
  not among the modelled sources, so they are parameters.
\<close>

record constants =
  DEFAULT_VOICE_ID :: jsval
  DEFAULT_SPEECH_MODEL :: jsval
  DEFAULT_SPEED :: jsval
  DEFAULT_VOLUME :: jsval
  DEFAULT_PITCH :: jsval
  DEFAULT_EMOTION :: jsval
  DEFAULT_FORMAT :: jsval
  DEFAULT_SAMPLE_RATE :: jsval
  DEFAULT_BITRATE :: jsval
  DEFAULT_CHANNEL :: jsval
  DEFAULT_LANGUAGE_BOOST :: jsval
  ERROR_API_KEY_REQUIRED :: string
  RESOURCE_MODE_URL :: string

text \<open>The text that the handler returns after the speech was generated.\<close>

definition textToAudioMessage ::
  "constants \<Rightarrow> jsval \<Rightarrow> obj \<Rightarrow> jsval \<Rightarrow> thrown + string" where
  "textToAudioMessage K outputFormat ttsParams result =
     (case readp result ''audio'' of
        Inl e \<Rightarrow> Inl e
      | Inr audio \<Rightarrow>
          if outputFormat = JStr (RESOURCE_MODE_URL K) then
            Inr (''Success. Audio URL: '' @ String_js audio @ ''. '' @
                 (if truthy (getp ttsParams ''subtitleEnable'')
                  then ''Subtitle file saved: '' @ String_js (optp result ''subtitle'')
                  else ''''))
          else
            Inr (''Audio file saved: '' @ String_js audio @ ''. '' @
                 (if truthy (getp ttsParams ''subtitleEnable'')
                  then ''Subtitle file saved: '' @ String_js (optp result ''subtitle'') @ ''. ''
                  else '''') @
                 ''Voice used: '' @ String_js (getp ttsParams ''voiceId'')))"

text \<open>
  The handler that \<open>registerTextToAudioTool\<close> registers, over the server's configuration
  \<open>config\<close> and the validated arguments \<open>args\<close>. Every exception of the body ends in the
  \<open>catch\<close>, which returns a tool result.
\<close>

definition registerTextToAudioTool_handler ::
  "env \<Rightarrow> constants \<Rightarrow> obj \<Rightarrow> obj \<Rightarrow> retval \<times> event list" where
  "registerTextToAudioTool_handler env K config args =
     (let failed = (\<lambda>error. TextContent (''Failed to generate audio: '' @ errorMessage error));
          ttsParams =
            [''text'' \<mapsto> getp args ''text'',
             ''outputDirectory'' \<mapsto> getp args ''outputDirectory'',
             ''voiceId'' \<mapsto> or_js (getp args ''voiceId'') (DEFAULT_VOICE_ID K),
             ''model'' \<mapsto> or_js (getp args ''model'') (DEFAULT_SPEECH_MODEL K),
             ''speed'' \<mapsto> or_js (getp args ''speed'') (DEFAULT_SPEED K),
             ''vol'' \<mapsto> or_js (getp args ''vol'') (DEFAULT_VOLUME K),
             ''pitch'' \<mapsto> or_js (getp args ''pitch'') (DEFAULT_PITCH K),
             ''emotion'' \<mapsto> or_js (getp args ''emotion'') (DEFAULT_EMOTION K),
             ''format'' \<mapsto> or_js (getp args ''format'') (DEFAULT_FORMAT K),
             ''sampleRate'' \<mapsto> or_js (getp args ''sampleRate'') (DEFAULT_SAMPLE_RATE K),
             ''bitrate'' \<mapsto> or_js (getp args ''bitrate'') (DEFAULT_BITRATE K),
             ''channel'' \<mapsto> or_js (getp args ''channel'') (DEFAULT_CHANNEL K),
             ''languageBoost'' \<mapsto> or_js (getp args ''languageBoost'') (DEFAULT_LANGUAGE_BOOST K),
             ''subtitleEnable'' \<mapsto> or_js (getp args ''subtitleEnable'') (JBool False),
             ''outputFile'' \<mapsto> getp args ''outputFile''];
          requestApiKey = getp config ''apiKey''
      in if \<not> truthy requestApiKey then (failed (JsError (ERROR_API_KEY_REQUIRED K)), [])
         else
           (let requestConfig =
                  [''apiKey'' \<mapsto> requestApiKey,
                   ''apiHost'' \<mapsto> getp config ''apiHost'',
                   ''resourceMode'' \<mapsto> getp config ''resourceMode'']
            in case construct env requestConfig of
                 Some e \<Rightarrow> (failed e, [])
               | None \<Rightarrow>
                   (let outputFormat = getp requestConfig ''resourceMode'';
                        ttsRequest = ttsParams ++ [''outputFormat'' \<mapsto> outputFormat]
                    in case (if \<not> truthy (getp ttsRequest ''outputFile'') then
                               (case substring0 (getp ttsRequest ''text'') 20 of
                                  Inl e \<Rightarrow> Inl e
                                | Inr textPrefix \<Rightarrow>
                                    Inr (ttsRequest(''outputFile'' \<mapsto>
                                           JStr (''tts_'' @ replaceNonWord textPrefix @ ''_'' @
                                                 show_int (dateNow env)))))
                             else Inr ttsRequest) of
                         Inl e \<Rightarrow> (failed e, [])
                       | Inr ttsRequest1 \<Rightarrow>
                           (case adapter env requestConfig ''generateSpeech'' (JObj ttsRequest1) 0 of
                              Inl e \<Rightarrow> (failed e, [Invoke ''generateSpeech'' (JObj ttsRequest1)])
                            | Inr result \<Rightarrow>
                                (case textToAudioMessage K outputFormat ttsParams result of
                                   Inl e \<Rightarrow>
                                     (failed e, [Invoke ''generateSpeech'' (JObj ttsRequest1)])
                                 | Inr text \<Rightarrow>
                                     (TextContent text,
                                      [Invoke ''generateSpeech'' (JObj ttsRequest1)]))))))"

text \<open>
  The error classification of the specification, in its words: an error is terminal for
  the domain when its message contains one of the two recognised texts.
\<close>

definition terminalDomain :: "thrown \<Rightarrow> bool" where
  "terminalDomain error \<longleftrightarrow>
     includes_js (errorMessage error) ''voice clone user forbidden'' \<or>
     includes_js (errorMessage error) ''should complete real-name verification''"

text \<open>
  The outcome of a handler whose attempts are used up: the last error is thrown, wrapped
  under the handler's message, after exactly three calls of the service and exactly two
  delays, of 1000 and then 2000 milliseconds.
\<close>

definition exhausted :: "(thrown + retval) \<times> event list \<Rightarrow> string \<Rightarrow> thrown \<Rightarrow> bool" where
  "exhausted outcome message lastError \<longleftrightarrow>
     fst outcome = Inl (wrapError message lastError) \<and>
     invocations (snd outcome) = 3 \<and>
     delays (snd outcome) = [1000, 2000]"





text \<open>
  An environment for the worked examples: a configuration manager that lays the request
  configuration over the server's, one that takes a fragment as it is, constructors that
  return, and a given media service.
\<close>

definition sampleEnv :: "service \<Rightarrow> env" where
  "sampleEnv svc =
     \<lparr>getConfig = (\<lambda>requestConfig baseConfig. Inr (baseConfig ++ requestConfig)),
      extractConfigFromMetaAuth = (\<lambda>metaAuth. Inr metaAuth),
      construct = (\<lambda>config. None),
      adapter = (\<lambda>config. svc),
      dateNow = 0\<rparr>"

text \<open>Constants for the worked examples; the values stand for those of \<open>const/index.js\<close>.\<close>

definition sampleConstants :: constants where
  "sampleConstants =
     \<lparr>DEFAULT_VOICE_ID = JStr ''female-shaonv'',
      DEFAULT_SPEECH_MODEL = JStr ''speech-02-hd'',
      DEFAULT_SPEED = JNum 1,
      DEFAULT_VOLUME = JNum 1,
      DEFAULT_PITCH = JNum 0,
      DEFAULT_EMOTION = JStr ''happy'',
      DEFAULT_FORMAT = JStr ''mp3'',
      DEFAULT_SAMPLE_RATE = JNum 32000,
      DEFAULT_BITRATE = JNum 128000,
      DEFAULT_CHANNEL = JNum 1,
      DEFAULT_LANGUAGE_BOOST = JStr ''auto'',
      ERROR_API_KEY_REQUIRED = ''API_KEY environment variable must be set'',
      RESOURCE_MODE_URL = ''url''\<rparr>"

section \<open>Configuration merge: what \<open>updateConfig\<close> guarantees\<close>

lemma updateConfig_fst_other:
  "k \<noteq> ''server'' \<Longrightarrow>
     fst (updateConfig config newConfig) k =
       (case newConfig k of None \<Rightarrow> config k | Some v \<Rightarrow> Some v)"
  by (simp add: updateConfig_def Let_def map_add_def split: option.splits)

text \<open>
  Claim C5, as the code has it. For every top-level field other than \<open>server\<close>: when the
  override has the property, the merged configuration takes the override's value,
  whatever the value is (the empty string, and \<open>undefined\<close> too, when the property is
  present); when the override does not have the property, the merged configuration
  keeps the existing value.
\<close>

theorem updateConfig_top_level:
  assumes "k \<noteq> ''server''"
  shows "getp (fst (updateConfig config newConfig)) k =
           (case newConfig k of None \<Rightarrow> getp config k | Some v \<Rightarrow> v)"
  using assms by (simp add: getp_def updateConfig_fst_other split: option.splits)

theorem updateConfig_top_level_witness:
  "''apiKey'' \<noteq> ''server'' \<and>
   getp (fst (updateConfig [''apiKey'' \<mapsto> JStr ''A'', ''apiHost'' \<mapsto> JStr ''H'']
                           [''apiKey'' \<mapsto> JStr ''''])) ''apiKey'' = JStr '''' \<and>
   getp (fst (updateConfig [''apiKey'' \<mapsto> JStr ''A'', ''apiHost'' \<mapsto> JStr ''H'']
                           [''apiKey'' \<mapsto> JStr ''''])) ''apiHost'' = JStr ''H''"
  using
    updateConfig_top_level [of "''apiKey''"
      "[''apiKey'' \<mapsto> JStr ''A'', ''apiHost'' \<mapsto> JStr ''H'']" "[''apiKey'' \<mapsto> JStr '''']"]
    updateConfig_top_level [of "''apiHost''"
      "[''apiKey'' \<mapsto> JStr ''A'', ''apiHost'' \<mapsto> JStr ''H'']" "[''apiKey'' \<mapsto> JStr '''']"]
  by (simp add: getp_def)

text \<open>
  The claim as it is written fails in two places. An override \<open>{apiKey: undefined}\<close>
  leaves the field undefined, yet the merged \<open>apiKey\<close> is \<open>undefined\<close> and not the
  existing \<open>'A'\<close>. An override that defines \<open>server\<close> over an existing \<open>server\<close> does not
  give the merged field the override's value: the two objects are merged.
\<close>

theorem updateConfig_top_level_counterexample:
  "getp [''apiKey'' \<mapsto> JUndefined] ''apiKey'' = JUndefined \<and>
   getp (fst (updateConfig [''apiKey'' \<mapsto> JStr ''A''] [''apiKey'' \<mapsto> JUndefined])) ''apiKey''
     \<noteq> getp [''apiKey'' \<mapsto> JStr ''A''] ''apiKey'' \<and>
   getp (fst (updateConfig [''server'' \<mapsto> JObj [''port'' \<mapsto> JNum 3000]]
                           [''server'' \<mapsto> JObj [''mode'' \<mapsto> JStr ''rest'']])) ''server''
     \<noteq> getp [''server'' \<mapsto> JObj [''mode'' \<mapsto> JStr ''rest'']] ''server''"
  by (auto simp add: updateConfig_def getp_def Let_def map_add_def
           dest!: fun_cong [where x = "''port''"])

text \<open>
  Claim C6. When the existing configuration has a \<open>server\<close> object and the override's
  \<open>server\<close> defines \<open>mode\<close> only, the merged \<open>server\<close> has the override's \<open>mode\<close>, and its
  \<open>port\<close>, its \<open>endpoint\<close> and every other key are those of the existing \<open>server\<close>.
\<close>

theorem updateConfig_server_merge:
  assumes "getp config ''server'' = JObj cs"
    and "getp newConfig ''server'' = JObj [''mode'' \<mapsto> m]"
  shows "\<exists>s. getp (fst (updateConfig config newConfig)) ''server'' = JObj s \<and>
             getp s ''mode'' = m \<and>
             getp s ''port'' = getp cs ''port'' \<and>
             getp s ''endpoint'' = getp cs ''endpoint'' \<and>
             (\<forall>k. k \<noteq> ''mode'' \<longrightarrow> s k = cs k)"
  using assms by (simp add: updateConfig_def getp_def Let_def map_add_def)

theorem updateConfig_server_merge_witness:
  "\<exists>s. getp (fst (updateConfig
          [''apiKey'' \<mapsto> JStr ''A'',
           ''server'' \<mapsto> JObj [''mode'' \<mapsto> JStr ''stdio'', ''port'' \<mapsto> JNum 3000,
                                 ''endpoint'' \<mapsto> JStr ''/rest'']]
          [''server'' \<mapsto> JObj [''mode'' \<mapsto> JStr ''rest'']])) ''server'' = JObj s \<and>
       getp s ''mode'' = JStr ''rest'' \<and>
       getp s ''port'' = JNum 3000 \<and>
       getp s ''endpoint'' = JStr ''/rest''"
proof -
  let ?cs = "[''mode'' \<mapsto> JStr ''stdio'', ''port'' \<mapsto> JNum 3000, ''endpoint'' \<mapsto> JStr ''/rest'']"
  let ?config = "[''apiKey'' \<mapsto> JStr ''A'', ''server'' \<mapsto> JObj ?cs]"
  let ?newConfig = "[''server'' \<mapsto> JObj [''mode'' \<mapsto> JStr ''rest'']]"
  have existing: "getp ?config ''server'' = JObj ?cs"
    by (simp add: getp_def)
  have override: "getp ?newConfig ''server'' = JObj [''mode'' \<mapsto> JStr ''rest'']"
    by (simp add: getp_def)
  from updateConfig_server_merge [OF existing override]
  obtain s where "getp (fst (updateConfig ?config ?newConfig)) ''server'' = JObj s"
    and "getp s ''mode'' = JStr ''rest''"
    and "getp s ''port'' = getp ?cs ''port''"
    and "getp s ''endpoint'' = getp ?cs ''endpoint''"
    by blast
  then show ?thesis by (auto simp: getp_def)
qed

text \<open>
  Claim C9. When the caller's \<open>newConfig\<close> defines \<open>server\<close> (with an object, or any other
  truthy value), the caller's object has lost its \<open>server\<close> property after the call, and
  kept every other property.
\<close>

theorem updateConfig_deletes_server:
  assumes "truthy (getp newConfig ''server'')"
  shows "snd (updateConfig config newConfig) ''server'' = None \<and>
         (\<forall>k. k \<noteq> ''server'' \<longrightarrow> snd (updateConfig config newConfig) k = newConfig k)"
  using assms by (simp add: updateConfig_def Let_def)

theorem updateConfig_deletes_server_witness:
  "truthy (getp [''apiKey'' \<mapsto> JStr ''B'', ''server'' \<mapsto> JObj [''port'' \<mapsto> JNum 8080]] ''server'') \<and>
   snd (updateConfig [''apiKey'' \<mapsto> JStr ''A'']
          [''apiKey'' \<mapsto> JStr ''B'', ''server'' \<mapsto> JObj [''port'' \<mapsto> JNum 8080]]) ''server'' = None \<and>
   snd (updateConfig [''apiKey'' \<mapsto> JStr ''A'']
          [''apiKey'' \<mapsto> JStr ''B'', ''server'' \<mapsto> JObj [''port'' \<mapsto> JNum 8080]]) ''apiKey''
     = Some (JStr ''B'')"
  using updateConfig_deletes_server [of
      "[''apiKey'' \<mapsto> JStr ''B'', ''server'' \<mapsto> JObj [''port'' \<mapsto> JNum 8080]]"
      "[''apiKey'' \<mapsto> JStr ''A'']"]
  by (simp add: getp_def)

section \<open>Music requests: the audio settings are coerced, never rejected\<close>

subsection \<open>Rounding to a double\<close>












lemma roundHalfEven_down:
  assumes "of_int f \<le> r" and "r < of_int f + 1 / 2"
  shows "roundHalfEven r = f"
proof -
  have "\<lfloor>r\<rfloor> = f" using assms by (intro floor_unique) linarith+
  with assms show ?thesis by (simp add: roundHalfEven_def)
qed







subsection \<open>The closest valid value\<close>

lemma foldl_closest:
  "first_closest (a # xs) x
     (foldl (\<lambda>prev curr. if \<bar>curr - x\<bar> < \<bar>prev - x\<bar> then curr else prev) a xs)"
proof (induction xs rule: rev_induct)
  case Nil
  have "[a] = [] @ a # []" by simp
  then show ?case unfolding first_closest_def by fastforce
next
  case (snoc y xs)
  let ?f = "\<lambda>prev curr. if \<bar>curr - x\<bar> < \<bar>prev - x\<bar> then curr else prev"
  let ?r = "foldl ?f a xs"
  from snoc.IH obtain pre post where
    split: "a # xs = pre @ ?r # post"
    and pre: "\<forall>v \<in> set pre. \<bar>?r - x\<bar> < \<bar>v - x\<bar>"
    and post: "\<forall>v \<in> set post. \<bar>?r - x\<bar> \<le> \<bar>v - x\<bar>"
    unfolding first_closest_def by blast
  show ?case
  proof (cases "\<bar>y - x\<bar> < \<bar>?r - x\<bar>")
    case True
    have "\<forall>v \<in> set (a # xs). \<bar>y - x\<bar> < \<bar>v - x\<bar>"
    proof
      fix v assume "v \<in> set (a # xs)"
      then have "v \<in> set (pre @ ?r # post)" by (simp only: split)
      then have "v \<in> set pre \<or> v = ?r \<or> v \<in> set post" by auto
      with pre post True show "\<bar>y - x\<bar> < \<bar>v - x\<bar>" by fastforce
    qed
    moreover have "a # xs @ [y] = (a # xs) @ y # []" by simp
    ultimately have "first_closest (a # xs @ [y]) x y"
      unfolding first_closest_def by (metis empty_iff list.set(1))
    with True show ?thesis by simp
  next
    case False
    have "a # xs @ [y] = pre @ ?r # (post @ [y])" using split by simp
    moreover from post False have "\<forall>v \<in> set (post @ [y]). \<bar>?r - x\<bar> \<le> \<bar>v - x\<bar>" by auto
    ultimately have "first_closest (a # xs @ [y]) x ?r"
      unfolding first_closest_def using pre by blast
    with False show ?thesis by simp
  qed
qed

lemma foldl_exact:
  assumes "exactDifferences (a # xs) x"
  shows "foldl (\<lambda>prev curr.
                  if js_less (js_abs (js_sub curr (Finite x))) (js_abs (js_sub prev (Finite x)))
                  then curr else prev)
           (Finite a) (map Finite xs)
         = Finite (foldl (\<lambda>prev curr. if \<bar>curr - x\<bar> < \<bar>prev - x\<bar> then curr else prev) a xs)"
  using assms
proof (induction xs arbitrary: a)
  case Nil
  show ?case by simp
next
  case (Cons y ys)
  from Cons.prems have a: "roundDouble (a - x) = Finite (a - x)"
    and y: "roundDouble (y - x) = Finite (y - x)"
    and rest: "\<forall>v \<in> set ys. roundDouble (v - x) = Finite (v - x)"
    by (simp_all add: exactDifferences_def)
  let ?next = "if \<bar>y - x\<bar> < \<bar>a - x\<bar> then y else a"
  have "exactDifferences (?next # ys) x"
    using a y rest by (simp add: exactDifferences_def)
  from Cons.IH [OF this] show ?case
    by (cases "\<bar>y - x\<bar> < \<bar>a - x\<bar>") (simp_all add: a y)
qed



lemma reduce_exact:
  assumes "exactDifferences (a # xs) x"
  shows "reduce (\<lambda>prev curr.
                   if js_less (js_abs (js_sub curr (Finite x))) (js_abs (js_sub prev (Finite x)))
                   then curr else prev)
           (Finite a # map Finite xs)
         = Inr (Finite (foldl (\<lambda>prev curr. if \<bar>curr - x\<bar> < \<bar>prev - x\<bar> then curr else prev) a xs))"
  by (simp only: reduce.simps foldl_exact [OF assms])

lemma reduce_closest:
  assumes "exactDifferences (a # xs) x"
  shows "\<exists>r. reduce (\<lambda>prev curr.
                   if js_less (js_abs (js_sub curr (Finite x))) (js_abs (js_sub prev (Finite x)))
                   then curr else prev)
                (Finite a # map Finite xs) = Inr (Finite r) \<and>
             first_closest (a # xs) x r"
  unfolding reduce_exact [OF assms] using foldl_closest [of a xs x] by blast



























lemma audio_settings_not_finite:
  assumes "x \<in> {NaN, PosInf, NegInf}"
  shows "ensureValidSampleRate (Some x) = Inr (Finite 16000)"
    and "ensureValidBitrate (Some x) = Inr (Finite 32000)"
    and "ensureValidChannel (Some x) = Inr (Finite 1)"
  using assms
  by (auto simp add: ensureValidSampleRate_def ensureValidBitrate_def ensureValidChannel_def
        validSampleRates_def validBitrates_def validChannels_def)




section \<open>Retry: the handlers whose attempts are used up\<close>

lemma invocations_append [simp]: "invocations (tr @ tr') = invocations tr + invocations tr'"
  by (induction tr rule: invocations.induct) simp_all

lemma delays_append [simp]: "delays (tr @ tr') = delays tr @ delays tr'"
  by (induction tr rule: delays.induct) simp_all

lemma handleTextToAudio_fails:
  assumes "\<And>n. svc ''generateSpeech'' args n = Inl (err n)"
  shows "handleTextToAudio svc args 1 [] =
           (Inl (wrapError ''Failed to generate speech'' (err 2)),
            [Invoke ''generateSpeech'' args, Sleep 1000, Invoke ''generateSpeech'' args,
             Sleep 2000, Invoke ''generateSpeech'' args])"
  by (simp add: handleTextToAudio.simps assms MAX_RETRY_ATTEMPTS_def RETRY_DELAY_def)
     (simp add: numeral_2_eq_2)

lemma handleListVoices_fails:
  assumes "\<And>n. svc ''listVoices'' args n = Inl (err n)"
  shows "handleListVoices svc args 1 [] =
           (Inl (wrapError ''Failed to list voices'' (err 2)),
            [Invoke ''listVoices'' args, Sleep 1000, Invoke ''listVoices'' args,
             Sleep 2000, Invoke ''listVoices'' args])"
  by (simp add: handleListVoices.simps assms MAX_RETRY_ATTEMPTS_def RETRY_DELAY_def)
     (simp add: numeral_2_eq_2)

lemma handleTextToImage_fails:
  assumes "\<And>n. svc ''generateImage'' args n = Inl (err n)"
  shows "handleTextToImage svc args 1 [] =
           (Inl (wrapError ''Failed to generate image'' (err 2)),
            [Invoke ''generateImage'' args, Sleep 1000, Invoke ''generateImage'' args,
             Sleep 2000, Invoke ''generateImage'' args])"
  by (simp add: handleTextToImage.simps assms MAX_RETRY_ATTEMPTS_def RETRY_DELAY_def)
     (simp add: numeral_2_eq_2)

lemma handleGenerateVideo_fails:
  assumes "\<And>n. svc ''generateVideo'' args n = Inl (err n)"
  shows "handleGenerateVideo svc args 1 [] =
           (Inl (wrapError ''Failed to generate video'' (err 2)),
            [Invoke ''generateVideo'' args, Sleep 1000, Invoke ''generateVideo'' args,
             Sleep 2000, Invoke ''generateVideo'' args])"
  by (simp add: handleGenerateVideo.simps assms MAX_RETRY_ATTEMPTS_def RETRY_DELAY_def)
     (simp add: numeral_2_eq_2)

lemma handleVoiceClone_fails:
  assumes "\<And>n. svc ''cloneVoice'' args n = Inl (err n)"
    and "\<And>n. \<not> terminalDomain (err n)"
  shows "handleVoiceClone svc args 1 [] =
           (Inl (wrapError ''Failed to clone voice'' (err 2)),
            [Invoke ''cloneVoice'' args, Sleep 1000, Invoke ''cloneVoice'' args,
             Sleep 2000, Invoke ''cloneVoice'' args])"
  using assms(2)
  by (simp add: handleVoiceClone.simps assms(1) terminalDomain_def MAX_RETRY_ATTEMPTS_def RETRY_DELAY_def)
     (simp add: numeral_2_eq_2)

lemma getp_upd: "getp (m(k \<mapsto> v)) k' = (if k' = k then v else getp m k')"
  by (simp add: getp_def)

lemma prepareImageToVideo_obj:
  assumes "m1 = (if truthy (getp m ''model'') then m else m(''model'' \<mapsto> JStr ''I2V-01''))"
  shows "prepareImageToVideo now (JObj m) =
     (if \<not> truthy (getp m1 ''firstFrameImage'') then
        (Some (JsError ''Missing required parameter: firstFrameImage''), JObj m1)
      else if \<not> truthy (getp m1 ''outputFile'') then
        (case substring0 (getp m1 ''prompt'') 20 of
           Inl e \<Rightarrow> (Some e, JObj m1)
         | Inr prefix \<Rightarrow>
             (None, JObj (m1(''outputFile'' \<mapsto>
                JStr (''i2v_'' @ replaceNonWord prefix @ ''_'' @ show_int now)))))
      else (None, JObj m1))"
  unfolding assms by (simp add: prepareImageToVideo_def Let_def split: sum.splits)

lemma prepareImageToVideo_ready:
  assumes "truthy (getp m ''model'')" "truthy (getp m ''firstFrameImage'')"
    "truthy (getp m ''outputFile'')"
  shows "prepareImageToVideo now (JObj m) = (None, JObj m)"
  using assms by (simp add: prepareImageToVideo_obj [OF refl])

lemma prepareImageToVideo_again_ok:
  assumes "prepareImageToVideo now args = (None, args1)"
  shows "prepareImageToVideo now args1 = (None, args1)"
proof (cases args)
  case (JObj m)
  define m1 where "m1 = (if truthy (getp m ''model'') then m else m(''model'' \<mapsto> JStr ''I2V-01''))"
  have model: "truthy (getp m1 ''model'')"
    by (simp add: m1_def getp_upd)
  note run = assms [unfolded JObj prepareImageToVideo_obj [OF m1_def]]
  from run have image: "truthy (getp m1 ''firstFrameImage'')"
    by (simp split: if_splits)
  show ?thesis
  proof (cases "truthy (getp m1 ''outputFile'')")
    case True
    with run image have "args1 = JObj m1" by simp
    with model image True show ?thesis by (simp add: prepareImageToVideo_ready)
  next
    case False
    with run image obtain p where
      "args1 = JObj (m1(''outputFile'' \<mapsto> JStr (''i2v_'' @ replaceNonWord p @ ''_'' @ show_int now)))"
      by (cases "substring0 (getp m1 ''prompt'') 20") auto
    with model image show ?thesis by (simp add: prepareImageToVideo_ready getp_upd)
  qed
qed (use assms in \<open>simp_all add: prepareImageToVideo_def\<close>)

lemma prepareImageToVideo_again_thrown:
  assumes "prepareImageToVideo now args = (Some e, args1)"
  shows "prepareImageToVideo now args1 = (Some e, args1)"
proof (cases args)
  case (JObj m)
  define m1 where "m1 = (if truthy (getp m ''model'') then m else m(''model'' \<mapsto> JStr ''I2V-01''))"
  have model: "truthy (getp m1 ''model'')"
    by (simp add: m1_def getp_upd)
  then have "m1 = (if truthy (getp m1 ''model'') then m1 else m1(''model'' \<mapsto> JStr ''I2V-01''))"
    by simp
  then have same: "prepareImageToVideo now (JObj m1) = prepareImageToVideo now (JObj m)"
    unfolding prepareImageToVideo_obj [OF m1_def] by (rule prepareImageToVideo_obj)
  note run = assms [unfolded JObj prepareImageToVideo_obj [OF m1_def]]
  from run have "args1 = JObj m1"
    by (cases "substring0 (getp m1 ''prompt'') 20") (simp_all split: if_splits)
  with same assms JObj show ?thesis by simp
qed (use assms in \<open>auto simp add: prepareImageToVideo_def\<close>)

lemma handleImageToVideo_fails:
  assumes "\<And>a n. svc ''generateVideo'' a n = Inl (err n)"
    and "prepareImageToVideo now args = (None, args1)"
  shows "handleImageToVideo svc now args 1 [] =
           (Inl (wrapError ''Failed to generate video'' (err 2)),
            [Invoke ''generateVideo'' args1, Sleep 1000, Invoke ''generateVideo'' args1,
             Sleep 2000, Invoke ''generateVideo'' args1])"
  using prepareImageToVideo_again_ok [OF assms(2)]
  by (simp add: handleImageToVideo.simps assms MAX_RETRY_ATTEMPTS_def RETRY_DELAY_def)
     (simp add: numeral_2_eq_2)

lemma handleImageToVideo_unprepared:
  assumes "prepareImageToVideo now args = (Some e, args1)"
  shows "handleImageToVideo svc now args 1 [] =
           (Inl (wrapError ''Failed to generate video'' e), [Sleep 1000, Sleep 2000])"
  using prepareImageToVideo_again_thrown [OF assms]
  by (simp add: handleImageToVideo.simps assms MAX_RETRY_ATTEMPTS_def RETRY_DELAY_def)

text \<open>
  Claim C1. Let the media service fail on every call, \<open>err n\<close> being the error of call
  number \<open>n\<close> (counted from 0). Then each handler that retries, started at attempt 1,
  calls the service exactly three times, waits exactly twice, 1000 and then 2000
  milliseconds, and throws the last error wrapped under its message. This holds for the
  text to audio, list voices, text to image and generate video handlers; for the voice
  clone handler when no error is a real-name verification error; and for the image to
  video handler when the arguments pass the handler's own checks.
\<close>

theorem retry_exhausted:
  assumes "\<And>m a n. svc m a n = Inl (err n)"
  shows "exhausted (handleTextToAudio svc args 1 []) ''Failed to generate speech'' (err 2) \<and>
         exhausted (handleListVoices svc args 1 []) ''Failed to list voices'' (err 2) \<and>
         exhausted (handleTextToImage svc args 1 []) ''Failed to generate image'' (err 2) \<and>
         exhausted (handleGenerateVideo svc args 1 []) ''Failed to generate video'' (err 2) \<and>
         ((\<forall>n. \<not> terminalDomain (err n)) \<longrightarrow>
            exhausted (handleVoiceClone svc args 1 []) ''Failed to clone voice'' (err 2)) \<and>
         ((\<exists>args1. prepareImageToVideo now args = (None, args1)) \<longrightarrow>
            exhausted (handleImageToVideo svc now args 1 []) ''Failed to generate video'' (err 2))"
proof (intro conjI impI)
  show "exhausted (handleTextToAudio svc args 1 []) ''Failed to generate speech'' (err 2)"
    unfolding exhausted_def handleTextToAudio_fails [of svc args err, OF assms] by simp
  show "exhausted (handleListVoices svc args 1 []) ''Failed to list voices'' (err 2)"
    unfolding exhausted_def handleListVoices_fails [of svc args err, OF assms] by simp
  show "exhausted (handleTextToImage svc args 1 []) ''Failed to generate image'' (err 2)"
    unfolding exhausted_def handleTextToImage_fails [of svc args err, OF assms] by simp
  show "exhausted (handleGenerateVideo svc args 1 []) ''Failed to generate video'' (err 2)"
    unfolding exhausted_def handleGenerateVideo_fails [of svc args err, OF assms] by simp
next
  assume "\<forall>n. \<not> terminalDomain (err n)"
  then have retryable: "\<And>n. \<not> terminalDomain (err n)" by simp
  show "exhausted (handleVoiceClone svc args 1 []) ''Failed to clone voice'' (err 2)"
    unfolding exhausted_def handleVoiceClone_fails [of svc args err, OF assms retryable]
    by simp
next
  assume "\<exists>args1. prepareImageToVideo now args = (None, args1)"
  then obtain args1 where prepared: "prepareImageToVideo now args = (None, args1)" by blast
  show "exhausted (handleImageToVideo svc now args 1 []) ''Failed to generate video'' (err 2)"
    unfolding exhausted_def handleImageToVideo_fails [of svc err now args args1, OF assms prepared]
    by simp
qed

theorem retry_exhausted_witness:
  "(\<forall>n::nat. \<not> terminalDomain (JsError ''socket hang up'')) \<and>
   (\<exists>args1. prepareImageToVideo 0
      (JObj [''firstFrameImage'' \<mapsto> JStr ''a.png'', ''outputFile'' \<mapsto> JStr ''out'']) = (None, args1)) \<and>
   exhausted
     (handleTextToAudio (\<lambda>m a n. Inl (JsError ''socket hang up''))
        (JObj [''firstFrameImage'' \<mapsto> JStr ''a.png'', ''outputFile'' \<mapsto> JStr ''out'']) 1 [])
     ''Failed to generate speech'' (JsError ''socket hang up'') \<and>
   exhausted
     (handleVoiceClone (\<lambda>m a n. Inl (JsError ''socket hang up''))
        (JObj [''firstFrameImage'' \<mapsto> JStr ''a.png'', ''outputFile'' \<mapsto> JStr ''out'']) 1 [])
     ''Failed to clone voice'' (JsError ''socket hang up'') \<and>
   exhausted
     (handleImageToVideo (\<lambda>m a n. Inl (JsError ''socket hang up'')) 0
        (JObj [''firstFrameImage'' \<mapsto> JStr ''a.png'', ''outputFile'' \<mapsto> JStr ''out'']) 1 [])
     ''Failed to generate video'' (JsError ''socket hang up'')"
proof -
  let ?svc = "\<lambda>(m::string) (a::jsval) (n::nat). (Inl (JsError ''socket hang up'') :: thrown + jsval)"
  let ?args = "JObj [''firstFrameImage'' \<mapsto> JStr ''a.png'', ''outputFile'' \<mapsto> JStr ''out'']"
  have fails: "\<And>m a n. ?svc m a n = Inl ((\<lambda>n. JsError ''socket hang up'') n)"
    by simp
  have retryable: "\<forall>n::nat. \<not> terminalDomain (JsError ''socket hang up'')"
    by (simp add: terminalDomain_def)
  have "prepareImageToVideo 0 ?args =
      (None, JObj [''firstFrameImage'' \<mapsto> JStr ''a.png'', ''outputFile'' \<mapsto> JStr ''out'',
                   ''model'' \<mapsto> JStr ''I2V-01''])"
    by (simp add: prepareImageToVideo_def getp_def)
  then have prepared: "\<exists>args1. prepareImageToVideo 0 ?args = (None, args1)"
    by blast
  from retry_exhausted [of ?svc "\<lambda>n. JsError ''socket hang up''" ?args 0, OF fails]
    retryable prepared
  show ?thesis by blast
qed

section \<open>The dispatcher\<close>

lemma startsWith_append: "startsWith (pat @ post) pat"
  by (induction pat) simp_all

lemma includes_js_append: "includes_js (pre @ pat @ post) pat"
proof (induction pre)
  case Nil
  have "startsWith (pat @ post) pat" by (rule startsWith_append)
  then show ?case by (cases "pat @ post") auto
next
  case (Cons c pre)
  then show ?case by simp
qed

lemma verificationText_has_url: "includes_js verificationText verificationUrl"
  unfolding verificationText_def by (rule includes_js_append)

lemma handleVoiceClone_terminal:
  assumes "svc ''cloneVoice'' args (invocations tr) = Inl error"
    and "terminalDomain error"
  shows "handleVoiceClone svc args attempt tr =
           (Inr (TextContent verificationText), tr @ [Invoke ''cloneVoice'' args])"
  using assms(2) by (subst handleVoiceClone.simps) (simp add: assms(1) terminalDomain_def)

lemma readp_same_receiver:
  assumes "readp v k = Inr x"
  shows "readp v k' = Inr (optp v k')"
  using assms by (cases v) simp_all

lemma wrapError_JsError: "\<exists>m. wrapError message e = JsError (message @ '': '' @ m)"
  by (cases e) (simp_all add: wrapError_def)

lemma callTool_routed:
  assumes "readp request ''params'' = Inr params"
    and "readp params ''tool'' = Inr toolName"
    and "getRequestConfig env config request = Inr rc"
    and "construct env rc = None"
    and "extractApiKeyFromRequest request = Inr key"
    and "maskedKey key = Inr masked"
  shows "callTool env config request =
           (case routeTool (adapter env rc) (dateNow env) toolName
                   (or_js (optp params ''params'') (JObj Map.empty)) of
              (Inl e, tr) \<Rightarrow> (Inl (wrapError (''Failed to call tool '' @ String_js toolName) e), tr)
            | (Inr v, tr) \<Rightarrow> (Inr v, tr))"
  by (simp add: callTool_def assms readp_same_receiver [OF assms(2), of "''params''"] Let_def
        split: prod.splits sum.splits)

lemma routeTool_unknown:
  assumes "toolName \<notin> JStr ` set routedTools"
  shows "routeTool svc now toolName args = (Inl (JsError (''Unknown tool: '' @ String_js toolName)), [])"
  using assms by (simp add: routeTool_def routedTools_def)

text \<open>
  Claim C2. Let a voice clone call reach its handler through the dispatcher, and let the
  first call of the service fail with an error whose message contains one of the two
  real-name verification texts. Then the dispatcher returns the tool result with the
  remediation text, which contains the verification URL, after exactly one call of the
  service and no delay; so does the handler at every attempt number, and so does the
  voice clone handler of the STDIO server.
\<close>

theorem verification_short_circuit:
  assumes "readp request ''params'' = Inr params"
    and "readp params ''tool'' = Inr (JStr ''voice_clone'')"
    and "args = or_js (optp params ''params'') (JObj Map.empty)"
    and "getRequestConfig env config request = Inr rc"
    and "construct env rc = None"
    and "extractApiKeyFromRequest request = Inr key"
    and "maskedKey key = Inr masked"
    and "adapter env rc ''cloneVoice'' args 0 = Inl error"
    and "terminalDomain error"
  shows "callTool env config request =
           (Inr (TextContent verificationText), [Invoke ''cloneVoice'' args]) \<and>
         invocations (snd (callTool env config request)) = 1 \<and>
         delays (snd (callTool env config request)) = [] \<and>
         (\<forall>attempt. handleVoiceClone (adapter env rc) args attempt [] =
            (Inr (TextContent verificationText), [Invoke ''cloneVoice'' args])) \<and>
         registerVoiceCloneTool_handler (adapter env rc) args =
           (TextContent verificationText, [Invoke ''cloneVoice'' args]) \<and>
         includes_js verificationText verificationUrl"
proof -
  have first: "adapter env rc ''cloneVoice'' args (invocations []) = Inl error"
    using assms(8) by simp
  have handler: "handleVoiceClone (adapter env rc) args attempt [] =
      (Inr (TextContent verificationText), [Invoke ''cloneVoice'' args])" for attempt
    using handleVoiceClone_terminal [of "adapter env rc" args "[]" error attempt] first assms(9)
    by simp
  have routed: "routeTool (adapter env rc) (dateNow env) (JStr ''voice_clone'') args =
      (Inr (TextContent verificationText), [Invoke ''cloneVoice'' args])"
    by (simp add: routeTool_def handler)
  have call: "callTool env config request =
      (Inr (TextContent verificationText), [Invoke ''cloneVoice'' args])"
    unfolding callTool_routed [OF assms(1,2,4,5,6,7)] assms(3) [symmetric] routed by simp
  have stdio: "registerVoiceCloneTool_handler (adapter env rc) args =
      (TextContent verificationText, [Invoke ''cloneVoice'' args])"
    using assms(9) by (simp add: registerVoiceCloneTool_handler_def assms(8) terminalDomain_def)
  show ?thesis
    unfolding call using handler stdio verificationText_has_url by simp
qed

theorem verification_short_circuit_witness:
  "terminalDomain (JsError ''voice clone user forbidden, should complete real-name verification'') \<and>
   callTool
     (sampleEnv (\<lambda>m a n. Inl (JsError ''voice clone user forbidden, should complete real-name verification'')))
     [''apiKey'' \<mapsto> JStr ''K'', ''apiHost'' \<mapsto> JStr ''H'']
     (JObj [''params'' \<mapsto> JObj [''tool'' \<mapsto> JStr ''voice_clone'',
                                     ''params'' \<mapsto> JObj [''voiceId'' \<mapsto> JStr ''v1'']]])
   = (Inr (TextContent verificationText),
      [Invoke ''cloneVoice'' (JObj [''voiceId'' \<mapsto> JStr ''v1''])])"
proof -
  let ?error = "JsError ''voice clone user forbidden, should complete real-name verification''"
  let ?env = "sampleEnv (\<lambda>m a n. Inl ?error)"
  let ?config = "[''apiKey'' \<mapsto> JStr ''K'', ''apiHost'' \<mapsto> JStr ''H'']"
  let ?args = "JObj [''voiceId'' \<mapsto> JStr ''v1'']"
  let ?params = "JObj [''tool'' \<mapsto> JStr ''voice_clone'', ''params'' \<mapsto> ?args]"
  let ?request = "JObj [''params'' \<mapsto> ?params]"
  have params: "readp ?request ''params'' = Inr ?params"
    by (simp add: getp_def)
  have tool: "readp ?params ''tool'' = Inr (JStr ''voice_clone'')"
    by (simp add: getp_def)
  have args: "?args = or_js (optp ?params ''params'') (JObj Map.empty)"
    by (simp add: or_js_def getp_def)
  have resolved: "getRequestConfig ?env ?config ?request = Inr ?config"
    by (simp add: getRequestConfig_def sampleEnv_def extractRequestConfig_def
          extractRequestConfig_try_def getp_def Let_def)
  have constructed: "construct ?env ?config = None"
    by (simp add: sampleEnv_def)
  have key: "extractApiKeyFromRequest ?request = Inr JUndefined"
    by (simp add: extractApiKeyFromRequest_def or_js_def getp_def Let_def)
  have masked: "maskedKey JUndefined = Inr ''not provided''"
    by (simp add: maskedKey_def)
  have fails: "adapter ?env ?config ''cloneVoice'' ?args 0 = Inl ?error"
    by (simp add: sampleEnv_def)
  have terminal: "terminalDomain ?error"
    by (simp add: terminalDomain_def)
  from verification_short_circuit
    [OF params tool args resolved constructed key masked fails terminal] terminal
  show ?thesis by blast
qed

section \<open>Which handlers retry\<close>

lemma routeTool_cases:
  "routeTool svc now (JStr ''text_to_audio'') args = handleTextToAudio svc args 1 []"
  "routeTool svc now (JStr ''list_voices'') args = handleListVoices svc args 1 []"
  "routeTool svc now (JStr ''play_audio'') args = handlePlayAudio args []"
  "routeTool svc now (JStr ''text_to_image'') args = handleTextToImage svc args 1 []"
  "routeTool svc now (JStr ''generate_video'') args = handleGenerateVideo svc args 1 []"
  "routeTool svc now (JStr ''voice_clone'') args = handleVoiceClone svc args 1 []"
  "routeTool svc now (JStr ''image_to_video'') args = handleImageToVideo svc now args 1 []"
  "routeTool svc now (JStr ''query_video_generation'') args =
     handleVideoGenerationQuery svc args 1 []"
  "routeTool svc now (JStr ''music_generation'') args = handleGenerateMusic svc args 1 []"
  "routeTool svc now (JStr ''voice_design'') args = handleVoiceDesign svc args 1 []"
  unfolding routeTool_def by simp_all

lemma handleImageToVideo_delays:
  assumes "\<And>m a n. svc m a n = Inl (err n)"
  shows "delays (snd (handleImageToVideo svc now args 1 [])) = [1000, 2000]"
proof (cases "prepareImageToVideo now args")
  case (Pair outcome args1)
  show ?thesis
  proof (cases outcome)
    case None
    with Pair have "prepareImageToVideo now args = (None, args1)" by simp
    from handleImageToVideo_fails [of svc err now args args1, OF assms this]
    show ?thesis by simp
  next
    case (Some e)
    with Pair have "prepareImageToVideo now args = (Some e, args1)" by simp
    from handleImageToVideo_unprepared [OF this, of svc]
    show ?thesis by simp
  qed
qed

text \<open>
  Claim C3, as the code has it. Four of the ten routed tools do not retry: besides the
  status query and the audio playback, the music generation and the voice design
  handlers call the service once and throw at once. When the service fails on every
  call, these four wait for no delay and call the service at most once, while each of
  the six other tools waits twice, 1000 and then 2000 milliseconds (the voice clone tool
  when no error is a real-name verification error).
\<close>

theorem retry_exemptions:
  assumes "\<And>m a n. svc m a n = Inl (err n)"
  shows "delays (snd (routeTool svc now (JStr ''text_to_audio'') args)) = [1000, 2000] \<and>
         delays (snd (routeTool svc now (JStr ''list_voices'') args)) = [1000, 2000] \<and>
         delays (snd (routeTool svc now (JStr ''text_to_image'') args)) = [1000, 2000] \<and>
         delays (snd (routeTool svc now (JStr ''generate_video'') args)) = [1000, 2000] \<and>
         ((\<forall>n. \<not> terminalDomain (err n)) \<longrightarrow>
            delays (snd (routeTool svc now (JStr ''voice_clone'') args)) = [1000, 2000]) \<and>
         delays (snd (routeTool svc now (JStr ''image_to_video'') args)) = [1000, 2000] \<and>
         snd (routeTool svc now (JStr ''play_audio'') args) = [] \<and>
         snd (routeTool svc now (JStr ''query_video_generation'') args) =
           [Invoke ''queryVideoGeneration'' args] \<and>
         snd (routeTool svc now (JStr ''music_generation'') args) =
           [Invoke ''generateMusic'' args] \<and>
         snd (routeTool svc now (JStr ''voice_design'') args) =
           [Invoke ''designVoice'' args]"
proof -
  have clone: "delays (snd (handleVoiceClone svc args 1 [])) = [1000, 2000]"
    if "\<forall>n. \<not> terminalDomain (err n)"
  proof -
    from that have retryable: "\<And>n. \<not> terminalDomain (err n)" by simp
    show ?thesis
      unfolding handleVoiceClone_fails [of svc args err, OF assms retryable] by simp
  qed
  show ?thesis
    unfolding routeTool_cases
      handleTextToAudio_fails [of svc args err, OF assms]
      handleListVoices_fails [of svc args err, OF assms]
      handleTextToImage_fails [of svc args err, OF assms]
      handleGenerateVideo_fails [of svc args err, OF assms]
      handleImageToVideo_delays [of svc err now args, OF assms]
    using clone
    by (simp add: handlePlayAudio_def handleVideoGenerationQuery_def handleGenerateMusic_def
          handleVoiceDesign_def assms split: sum.splits)
qed

theorem retry_exemptions_witness:
  "(\<forall>n::nat. \<not> terminalDomain (JsError ''socket hang up'')) \<and>
   delays (snd (routeTool (\<lambda>m a n. Inl (JsError ''socket hang up'')) 0
                  (JStr ''voice_clone'') (JObj Map.empty))) = [1000, 2000] \<and>
   snd (routeTool (\<lambda>m a n. Inl (JsError ''socket hang up'')) 0
          (JStr ''voice_design'') (JObj Map.empty)) = [Invoke ''designVoice'' (JObj Map.empty)]"
proof -
  let ?svc = "\<lambda>(m::string) (a::jsval) (n::nat). (Inl (JsError ''socket hang up'') :: thrown + jsval)"
  have fails: "\<And>m a n. ?svc m a n = Inl ((\<lambda>n. JsError ''socket hang up'') n)"
    by simp
  have retryable: "\<forall>n::nat. \<not> terminalDomain (JsError ''socket hang up'')"
    by (simp add: terminalDomain_def)
  from retry_exemptions [of ?svc "\<lambda>n. JsError ''socket hang up''" 0 "JObj Map.empty", OF fails]
    retryable
  show ?thesis by blast
qed

text \<open>
  The claim as it is written counts two exempted tools. The music generation tool is a
  third: with a service that always fails, its handler calls the service once, waits for
  no delay, and throws.
\<close>

theorem retry_exemptions_counterexample:
  "''music_generation'' \<notin> {''query_video_generation'', ''play_audio''} \<and>
   routeTool (\<lambda>m a n. Inl (JsError ''socket hang up'')) 0 (JStr ''music_generation'')
     (JObj Map.empty)
   = (Inl (JsError ''Failed to generate music: socket hang up''),
      [Invoke ''generateMusic'' (JObj Map.empty)])"
  by (simp add: routeTool_def handleGenerateMusic_def wrapError_def)

section \<open>Unknown tools\<close>

text \<open>
  Claim C4, as the code has it. When the tool name of a request is none of the routed
  names, the dispatcher throws: the \<open>switch\<close> throws \<open>Unknown tool\<close>, and the handler
  wraps and rethrows whatever its \<open>try\<close> block throws. No tool result is returned; the
  service is never called and nothing is awaited. The message is
  \<open>Failed to call tool N: Unknown tool: N\<close> whenever the steps before the \<open>switch\<close> went
  through.
\<close>

theorem unknown_tool_throws:
  assumes "readp request ''params'' = Inr params"
    and "readp params ''tool'' = Inr toolName"
    and "toolName \<notin> JStr ` set routedTools"
  shows "(\<exists>m. callTool env config request =
            (Inl (JsError (''Failed to call tool '' @ String_js toolName @ '': '' @ m)), [])) \<and>
         (\<forall>rc key masked.
            getRequestConfig env config request = Inr rc \<longrightarrow>
            construct env rc = None \<longrightarrow>
            extractApiKeyFromRequest request = Inr key \<longrightarrow>
            maskedKey key = Inr masked \<longrightarrow>
            callTool env config request =
              (Inl (JsError (''Failed to call tool '' @ String_js toolName @
                             '': Unknown tool: '' @ String_js toolName)), []))"
proof -
  let ?prefix = "''Failed to call tool '' @ String_js toolName"
  have wrapped: "\<exists>m. (Inl (wrapError ?prefix e), []) =
      ((Inl (JsError (?prefix @ '': '' @ m)), []) :: (thrown + retval) \<times> event list)" for e
    using wrapError_JsError [of ?prefix e] by auto
  have routed: "callTool env config request =
      (Inl (JsError (?prefix @ '': Unknown tool: '' @ String_js toolName)), [])"
    if "getRequestConfig env config request = Inr rc" "construct env rc = None"
      "extractApiKeyFromRequest request = Inr key" "maskedKey key = Inr masked"
    for rc key masked
    unfolding callTool_routed [OF assms(1,2) that] routeTool_unknown [OF assms(3)]
    by (simp add: wrapError_def)
  have "\<exists>m. callTool env config request = (Inl (JsError (?prefix @ '': '' @ m)), [])"
  proof (cases "getRequestConfig env config request")
    case (Inl e)
    then have "callTool env config request = (Inl (wrapError ?prefix e), [])"
      by (simp add: callTool_def assms readp_same_receiver [OF assms(2), of "''params''"] Let_def)
    with wrapped show ?thesis by simp
  next
    case resolved: (Inr rc)
    show ?thesis
    proof (cases "construct env rc")
      case (Some e)
      with resolved have "callTool env config request = (Inl (wrapError ?prefix e), [])"
        by (simp add: callTool_def assms readp_same_receiver [OF assms(2), of "''params''"] Let_def)
      with wrapped show ?thesis by simp
    next
      case None
      show ?thesis
      proof (cases "extractApiKeyFromRequest request")
        case (Inl e)
        with resolved None have "callTool env config request = (Inl (wrapError ?prefix e), [])"
          by (simp add: callTool_def assms readp_same_receiver [OF assms(2), of "''params''"] Let_def)
        with wrapped show ?thesis by simp
      next
        case key: (Inr key)
        show ?thesis
        proof (cases "maskedKey key")
          case (Inl e)
          with resolved None key
          have "callTool env config request = (Inl (wrapError ?prefix e), [])"
            by (simp add: callTool_def assms readp_same_receiver [OF assms(2), of "''params''"]
                  Let_def)
          with wrapped show ?thesis by simp
        next
          case (Inr masked)
          from routed [OF resolved None key this]
          have "callTool env config request =
              (Inl (JsError (?prefix @ '': '' @ (''Unknown tool: '' @ String_js toolName))), [])"
            by simp
          then show ?thesis by blast
        qed
      qed
    qed
  qed
  then have "(\<exists>m. callTool env config request = (Inl (JsError (?prefix @ '': '' @ m)), [])) \<and>
      (\<forall>rc key masked.
         getRequestConfig env config request = Inr rc \<longrightarrow>
         construct env rc = None \<longrightarrow>
         extractApiKeyFromRequest request = Inr key \<longrightarrow>
         maskedKey key = Inr masked \<longrightarrow>
         callTool env config request =
           (Inl (JsError (?prefix @ '': Unknown tool: '' @ String_js toolName)), []))"
    using routed by blast
  then show ?thesis by simp
qed

theorem unknown_tool_throws_witness:
  "JStr ''translate'' \<notin> JStr ` set routedTools \<and>
   callTool (sampleEnv (\<lambda>m a n. Inr JNull)) [''apiKey'' \<mapsto> JStr ''K'']
     (JObj [''params'' \<mapsto> JObj [''tool'' \<mapsto> JStr ''translate'']])
   = (Inl (JsError ''Failed to call tool translate: Unknown tool: translate''), [])"
proof -
  let ?env = "sampleEnv (\<lambda>m a n. Inr JNull)"
  let ?config = "[''apiKey'' \<mapsto> JStr ''K'']"
  let ?params = "JObj [''tool'' \<mapsto> JStr ''translate'']"
  let ?request = "JObj [''params'' \<mapsto> ?params]"
  have params: "readp ?request ''params'' = Inr ?params"
    by (simp add: getp_def)
  have tool: "readp ?params ''tool'' = Inr (JStr ''translate'')"
    by (simp add: getp_def)
  have unknown: "JStr ''translate'' \<notin> JStr ` set routedTools"
    by (simp add: routedTools_def image_iff)
  have resolved: "getRequestConfig ?env ?config ?request = Inr ?config"
    by (simp add: getRequestConfig_def sampleEnv_def extractRequestConfig_def
          extractRequestConfig_try_def getp_def Let_def)
  have constructed: "construct ?env ?config = None"
    by (simp add: sampleEnv_def)
  have key: "extractApiKeyFromRequest ?request = Inr JUndefined"
    by (simp add: extractApiKeyFromRequest_def or_js_def getp_def Let_def)
  have masked: "maskedKey JUndefined = Inr ''not provided''"
    by (simp add: maskedKey_def)
  from unknown_tool_throws [OF params tool unknown, of ?env ?config]
  have "callTool ?env ?config ?request =
      (Inl (JsError (''Failed to call tool '' @ String_js (JStr ''translate'') @
                     '': Unknown tool: '' @ String_js (JStr ''translate''))), [])"
    using resolved constructed key masked by blast
  with unknown show ?thesis by simp
qed

text \<open>
  The claim as it is written promises a tool result. For the unknown tool \<open>translate\<close>
  the dispatcher gives none: what it yields is a thrown error.
\<close>

theorem unknown_tool_counterexample:
  "\<not> (\<exists>text. fst (callTool (sampleEnv (\<lambda>m a n. Inr JNull)) [''apiKey'' \<mapsto> JStr ''K'']
                     (JObj [''params'' \<mapsto> JObj [''tool'' \<mapsto> JStr ''translate'']]))
               = Inr (TextContent text)) \<and>
   fst (callTool (sampleEnv (\<lambda>m a n. Inr JNull)) [''apiKey'' \<mapsto> JStr ''K'']
          (JObj [''params'' \<mapsto> JObj [''tool'' \<mapsto> JStr ''translate'']]))
     = Inl (JsError ''Failed to call tool translate: Unknown tool: translate'')"
  by (simp add: callTool_def getRequestConfig_def sampleEnv_def extractRequestConfig_def
        extractRequestConfig_try_def extractApiKeyFromRequest_def maskedKey_def or_js_def
        routeTool_def wrapError_def getp_def Let_def)

section \<open>Credential extraction\<close>













section \<open>Missing mandatory fields\<close>

text \<open>
  Claim C8, as the code has it. The text-to-audio handler of the STDIO server checks the
  API key of the server's configuration: when it is undefined or empty, the handler
  returns a tool result with the message that the key is required, before the API
  objects are built and with no call of the service; nothing is thrown.
\<close>

theorem missing_api_key_reported:
  assumes "\<not> truthy (getp config ''apiKey'')"
  shows "registerTextToAudioTool_handler env K config args =
           (TextContent (''Failed to generate audio: '' @ ERROR_API_KEY_REQUIRED K), [])"
  using assms by (simp add: registerTextToAudioTool_handler_def Let_def)

theorem missing_api_key_reported_witness:
  "\<not> truthy (getp [''apiHost'' \<mapsto> JStr ''https://api.minimax.chat''] ''apiKey'') \<and>
   registerTextToAudioTool_handler (sampleEnv (\<lambda>m a n. Inr JNull)) sampleConstants
     [''apiHost'' \<mapsto> JStr ''https://api.minimax.chat''] [''text'' \<mapsto> JStr ''hello'']
   = (TextContent ''Failed to generate audio: API_KEY environment variable must be set'', [])"
proof -
  have missing: "\<not> truthy (getp [''apiHost'' \<mapsto> JStr ''https://api.minimax.chat''] ''apiKey'')"
    by (simp add: getp_def)
  from missing_api_key_reported [OF missing, of "sampleEnv (\<lambda>m a n. Inr JNull)" sampleConstants
      "[''text'' \<mapsto> JStr ''hello'']"] missing
  show ?thesis by (simp add: sampleConstants_def)
qed

text \<open>
  The claim as it is written fails on the REST dispatcher, which checks no field. With a
  server configuration without an API key and a request that brings none, a
  text-to-audio call goes to the service: when the service fails, the handler retries
  it, three calls and two delays, and the dispatcher throws; when the service answers,
  the dispatcher returns the answer.
\<close>

theorem missing_api_key_counterexample:
  "getRequestConfig (sampleEnv (\<lambda>m a n. Inl (JsError ''invalid api key'')))
     [''resourceMode'' \<mapsto> JStr ''url'']
     (JObj [''params'' \<mapsto> JObj [''tool'' \<mapsto> JStr ''text_to_audio'',
                                     ''params'' \<mapsto> JObj [''text'' \<mapsto> JStr ''hello'']]])
     = Inr [''resourceMode'' \<mapsto> JStr ''url''] \<and>
   getp [''resourceMode'' \<mapsto> JStr ''url''] ''apiKey'' = JUndefined \<and>
   getp [''resourceMode'' \<mapsto> JStr ''url''] ''apiHost'' = JUndefined \<and>
   callTool (sampleEnv (\<lambda>m a n. Inl (JsError ''invalid api key'')))
     [''resourceMode'' \<mapsto> JStr ''url'']
     (JObj [''params'' \<mapsto> JObj [''tool'' \<mapsto> JStr ''text_to_audio'',
                                     ''params'' \<mapsto> JObj [''text'' \<mapsto> JStr ''hello'']]])
     = (Inl (JsError ''Failed to call tool text_to_audio: Failed to generate speech: invalid api key''),
        [Invoke ''generateSpeech'' (JObj [''text'' \<mapsto> JStr ''hello'']), Sleep 1000,
         Invoke ''generateSpeech'' (JObj [''text'' \<mapsto> JStr ''hello'']), Sleep 2000,
         Invoke ''generateSpeech'' (JObj [''text'' \<mapsto> JStr ''hello''])]) \<and>
   callTool (sampleEnv (\<lambda>m a n. Inr (JStr ''audio.mp3'')))
     [''resourceMode'' \<mapsto> JStr ''url'']
     (JObj [''params'' \<mapsto> JObj [''tool'' \<mapsto> JStr ''text_to_audio'',
                                     ''params'' \<mapsto> JObj [''text'' \<mapsto> JStr ''hello'']]])
     = (Inr (Result (JStr ''audio.mp3'')),
        [Invoke ''generateSpeech'' (JObj [''text'' \<mapsto> JStr ''hello''])])"
  by (simp add: callTool_def getRequestConfig_def sampleEnv_def extractRequestConfig_def
        extractRequestConfig_try_def extractApiKeyFromRequest_def maskedKey_def or_js_def
        routeTool_def handleTextToAudio.simps MAX_RETRY_ATTEMPTS_def RETRY_DELAY_def
        wrapError_def getp_def Let_def)

end
